theory Spec2Isabelle
  imports Complex_Main
begin

section \<open>The computer tool of computer\_use\_demo/tools/computer.py\<close>

text \<open>
  The development embeds the class \<open>ComputerTool\<close>: its constructor, the coordinate
  scaling between the screen ("computer") resolution and the width-capped ("api")
  resolution, the capability descriptor, and the dispatcher \<open>__call__\<close> with the
  device calls it makes.

  Conventions of the embedding.
  \<^item> Python's \<open>int\<close> is \<open>int\<close>. Python's \<open>float\<close> is idealised as an exact rational
    (\<open>rat\<close>): \<open>/\<close> and \<open>*\<close> are exact, the rounding of IEEE doubles is not part of the
    model. \<open>round\<close> on a float is Python's rounding to the nearest integer with ties
    going to the even neighbour.
  \<^item> A raised exception is the left summand of the result.
  \<^item> Text is a \<open>string\<close> of 8-bit characters, read as the code points 0 to 255.
\<close>

subsection \<open>Values, messages and errors\<close>

text \<open>The values a caller can put into the fields of a request.\<close>

datatype pyval =
    PNone
  | PBool bool
  | PInt int
  | PFloat rat
  | PStr string
  | PList "pyval list"
  | PTuple "pyval list"
  | PDict "(string \<times> pyval) list"

text \<open>
  An f-string is kept as its fragments: the literal text and the interpolated values,
  in order. \<open>f"{coordinate} must be a tuple of length 2"\<close> is
  \<open>[Val coordinate, Lit '' must be a tuple of length 2'']\<close>.
\<close>

datatype frag = Lit string | Val pyval

type_synonym message = "frag list"

datatype error =
    ToolError message
  | ZeroDivisionError
  | AssertionError string

text \<open>
  \<open>ToolResult\<close> is declared in \<open>base.py\<close>; the two fields this module sets are kept,
  each \<open>None\<close> unless given (\<open>output_text\<close> is the field \<open>output\<close>).
\<close>

record ToolResult =
  output_text :: "string option"
  base64_image :: "string option"

definition and_then :: "error + 'a \<Rightarrow> ('a \<Rightarrow> error + 'b) \<Rightarrow> error + 'b" where
  "and_then r f = (case r of Inl e \<Rightarrow> Inl e | Inr v \<Rightarrow> f v)"

subsection \<open>Numbers\<close>

definition IMAGE_MAX_WIDTH :: int where
  "IMAGE_MAX_WIDTH = 1200"

text \<open>True division \<open>a / b\<close>: raises on a zero divisor.\<close>

definition truediv :: "rat \<Rightarrow> rat \<Rightarrow> error + rat" where
  "truediv a b = (if b = 0 then Inl ZeroDivisionError else Inr (a / b))"

text \<open>\<open>round(q)\<close> with one argument: the nearest integer, a tie goes to the even one.\<close>

definition py_round :: "rat \<Rightarrow> int" where
  "py_round q =
     (let f = \<lfloor>q\<rfloor>; d = q - of_int f
      in if d < 1 / 2 then f
         else if 1 / 2 < d then f + 1
         else if even f then f else f + 1)"

subsection \<open>The tool object\<close>

datatype ScalingSource = COMPUTER | API

record ComputerTool =
  width :: int
  height :: int
  display_num :: "int option"
  scaling_enabled :: bool




subsection \<open>Coordinate scaling\<close>

text \<open>
  The two factors that \<open>scale_coordinates\<close> computes before it looks at the source:
  \<open>ratio\<close>, the target height, then \<open>x_scaling_factor\<close> and \<open>y_scaling_factor\<close>.
\<close>

definition scaling_factors :: "ComputerTool \<Rightarrow> error + rat \<times> rat" where
  "scaling_factors self =
     and_then (truediv (of_int (width self)) (of_int (height self))) (\<lambda>ratio.
     and_then (truediv (of_int IMAGE_MAX_WIDTH) ratio) (\<lambda>target_height.
     and_then (truediv (of_int IMAGE_MAX_WIDTH) (of_int (width self))) (\<lambda>x_scaling_factor.
     and_then (truediv target_height (of_int (height self))) (\<lambda>y_scaling_factor.
       Inr (x_scaling_factor, y_scaling_factor)))))"

definition out_of_bounds :: "int \<Rightarrow> int \<Rightarrow> message" where
  "out_of_bounds x y =
     [Lit ''Coordinates '', Val (PInt x), Lit '', '', Val (PInt y), Lit '' are out of bounds'']"

definition scale_coordinates ::
  "ComputerTool \<Rightarrow> ScalingSource \<Rightarrow> int \<Rightarrow> int \<Rightarrow> error + int \<times> int" where
  "scale_coordinates self source x y =
     (if \<not> scaling_enabled self then Inr (x, y)
      else and_then (scaling_factors self) (\<lambda>(x_scaling_factor, y_scaling_factor).
        if source = API then
          if x > width self \<or> y > height self then Inl (ToolError (out_of_bounds x y))
          else
            and_then (truediv (of_int x) x_scaling_factor) (\<lambda>a.
            and_then (truediv (of_int y) y_scaling_factor) (\<lambda>b.
              Inr (py_round a, py_round b)))
        else Inr (py_round (of_int x * x_scaling_factor), py_round (of_int y * y_scaling_factor))))"

subsection \<open>Text\<close>

text \<open>\<open>str(n)\<close> for an integer: its decimal digits, with a minus sign when negative.\<close>

fun str_nat :: "nat \<Rightarrow> string" where
  "str_nat n =
     (if n < 10 then [char_of (48 + n)] else str_nat (n div 10) @ [char_of (48 + n mod 10)])"

declare str_nat.simps [simp del]

definition str_int :: "int \<Rightarrow> string" where
  "str_int i = (if i < 0 then CHR ''-'' # str_nat (nat (- i)) else str_nat (nat i))"

text \<open>
  \<open>str.isspace\<close>, \<open>str.strip()\<close> and \<open>str.lower()\<close> on the code points 0 to 255: the
  white space is TAB to CR, FS to US, the blank, NEL and the no-break space; the
  upper-case letters are A to Z and the Latin-1 letters 192 to 222 without the
  multiplication sign 215, each 32 below its lower-case letter.
\<close>

definition isspace :: "char \<Rightarrow> bool" where
  "isspace c =
     (let n = (of_char c :: nat)
      in (9 \<le> n \<and> n \<le> 13) \<or> (28 \<le> n \<and> n \<le> 32) \<or> n = 133 \<or> n = 160)"

definition str_strip :: "string \<Rightarrow> string" where
  "str_strip s = rev (dropWhile isspace (rev (dropWhile isspace s)))"

definition lower_char :: "char \<Rightarrow> char" where
  "lower_char c =
     (let n = (of_char c :: nat)
      in if (65 \<le> n \<and> n \<le> 90) \<or> (192 \<le> n \<and> n \<le> 222 \<and> n \<noteq> 215)
         then char_of (n + 32) else c)"

definition str_lower :: "string \<Rightarrow> string" where
  "str_lower s = map lower_char s"

text \<open>
  \<open>s.split(sep)\<close> for a separator of one character: the text up to the first separator,
  then the split of what follows it; a text without separator is its own single piece.
\<close>

function str_split :: "char \<Rightarrow> string \<Rightarrow> string list" where
  "str_split sep s =
     (if sep \<in> set s
      then takeWhile (\<lambda>c. c \<noteq> sep) s # str_split sep (tl (dropWhile (\<lambda>c. c \<noteq> sep) s))
      else [s])"
  by pat_completeness auto
termination
proof (relation "measure (\<lambda>(sep, s). length s)")
  show "wf (measure (\<lambda>(sep, s). length s))" by simp
next
  fix sep :: char and s :: string
  assume "sep \<in> set s"
  then have "dropWhile (\<lambda>c. c \<noteq> sep) s \<noteq> []" by (auto simp: dropWhile_eq_Nil_conv)
  then have "length (tl (dropWhile (\<lambda>c. c \<noteq> sep) s)) < length (dropWhile (\<lambda>c. c \<noteq> sep) s)"
    by (cases "dropWhile (\<lambda>c. c \<noteq> sep) s") simp_all
  also have "\<dots> \<le> length s" by (rule length_dropWhile_le)
  finally show "((sep, tl (dropWhile (\<lambda>c. c \<noteq> sep) s)), (sep, s)) \<in> measure (\<lambda>(sep, s). length s)"
    by simp
qed

declare str_split.simps [simp del]

text \<open>\<open>sep.join(pieces)\<close>, the inverse the specification's "split on" refers to.\<close>

fun str_join :: "char \<Rightarrow> string list \<Rightarrow> string" where
  "str_join sep [] = []"
| "str_join sep [p] = p"
| "str_join sep (p # q # ps) = p @ sep # str_join sep (q # ps)"

subsection \<open>Inspecting request values\<close>

fun isinstance_list :: "pyval \<Rightarrow> bool" where
  "isinstance_list (PList xs) = True"
| "isinstance_list v = False"

fun isinstance_str :: "pyval \<Rightarrow> bool" where
  "isinstance_str (PStr s) = True"
| "isinstance_str v = False"

text \<open>\<open>bool\<close> is a subclass of \<open>int\<close>: \<open>isinstance(True, int)\<close> holds, and \<open>True\<close> counts as 1.\<close>

fun isinstance_int :: "pyval \<Rightarrow> bool" where
  "isinstance_int (PInt n) = True"
| "isinstance_int (PBool b) = True"
| "isinstance_int v = False"

fun int_value :: "pyval \<Rightarrow> int" where
  "int_value (PInt n) = n"
| "int_value (PBool b) = (if b then 1 else 0)"
| "int_value v = 0"

fun str_value :: "pyval \<Rightarrow> string" where
  "str_value (PStr s) = s"
| "str_value v = []"

text \<open>The elements of a list or tuple, in order.\<close>

fun items :: "pyval \<Rightarrow> pyval list" where
  "items (PList xs) = xs"
| "items (PTuple xs) = xs"
| "items v = []"

subsection \<open>The devices\<close>

text \<open>
  The calls into \<open>pyautogui\<close>, \<open>asyncio\<close> and \<open>PIL\<close> are recorded in the order they are
  made; each is taken to return normally. What the environment gives back is part of
  the world: the pointer location that \<open>pyautogui.position()\<close> reports, whether the
  screenshot file exists after saving, and the base64 text of its bytes.
\<close>

datatype event =
    MoveTo int int
  | DragTo int int
  | Hotkey "string list"
  | Press string
  | Write string
  | Click
  | RightClick
  | MiddleClick
  | DoubleClick
  | Sleep rat
  | Grab
  | Resize int int
  | Save

record world =
  pointer :: "int \<times> int"
  events :: "event list"
  file_exists :: bool
  file_base64 :: string

definition emit :: "event \<Rightarrow> world \<Rightarrow> world" where
  "emit e w = w\<lparr>events := events w @ [e]\<rparr>"

definition screenshot_delay :: rat where
  "screenshot_delay = 2"

subsection \<open>Screenshots\<close>

definition save_and_encode :: "world \<Rightarrow> (error + ToolResult) \<times> world" where
  "save_and_encode w =
     (let w' = emit Save w
      in if file_exists w'
         then (Inr \<lparr>output_text = None, base64_image = Some (file_base64 w')\<rparr>, w')
         else (Inl (ToolError [Lit ''Failed to take screenshot'']), w'))"

definition screenshot :: "ComputerTool \<Rightarrow> world \<Rightarrow> (error + ToolResult) \<times> world" where
  "screenshot self w =
     (let w1 = emit Grab w
      in if scaling_enabled self then
           (case scale_coordinates self COMPUTER (width self) (height self) of
              Inl e \<Rightarrow> (Inl e, w1)
            | Inr (x, y) \<Rightarrow> save_and_encode (emit (Resize x y) w1))
         else save_and_encode w1)"

definition take_action_screenshot :: "ComputerTool \<Rightarrow> world \<Rightarrow> (error + ToolResult) \<times> world" where
  "take_action_screenshot self w =
     (case screenshot self (emit (Sleep screenshot_delay) w) of
        (Inl e, w') \<Rightarrow> (Inl e, w')
      | (Inr screenshot_result, w') \<Rightarrow>
          (Inr \<lparr>output_text = None, base64_image = base64_image screenshot_result\<rparr>, w'))"

subsection \<open>The dispatcher\<close>

text \<open>
  \<open>__call__(action, text, coordinate)\<close>. A field that is absent is \<open>PNone\<close>, its default.
  The source is three \<open>if\<close> blocks in a row and a final \<open>raise\<close>; each block is one
  definition here, falling through to the next. \<open>ToolError\<close> is declared in \<open>base.py\<close>;
  every \<open>raise ToolError(...)\<close> is taken to raise it with the given message, also the one
  for a text that is not a string, which passes the message as \<open>output=\<close>. A list element
  that is a \<open>bool\<close> reaches \<open>scale_coordinates\<close> as its integer value.
\<close>

definition invalid_action :: "string \<Rightarrow> world \<Rightarrow> (error + ToolResult) \<times> world" where
  "invalid_action action w = (Inl (ToolError [Lit ''Invalid action: '', Val (PStr action)]), w)"

definition click_block ::
  "ComputerTool \<Rightarrow> world \<Rightarrow> string \<Rightarrow> pyval \<Rightarrow> pyval \<Rightarrow> (error + ToolResult) \<times> world" where
  "click_block self w action text coordinate =
     (if action \<in> {''left_click'', ''right_click'', ''double_click'', ''middle_click'',
                    ''screenshot'', ''cursor_position''} then
        if text \<noteq> PNone then
          (Inl (ToolError [Lit ''text is not accepted for '', Val (PStr action)]), w)
        else if coordinate \<noteq> PNone then
          (Inl (ToolError [Lit ''coordinate is not accepted for '', Val (PStr action)]), w)
        else if action = ''screenshot'' then screenshot self w
        else if action = ''cursor_position'' then
          (case pointer w of (x, y) \<Rightarrow>
            (case scale_coordinates self COMPUTER x y of
               Inl e \<Rightarrow> (Inl e, w)
             | Inr (scaled_x, scaled_y) \<Rightarrow>
                 (Inr \<lparr>output_text = Some (''X='' @ str_int scaled_x @ '',Y='' @ str_int scaled_y),
                       base64_image = None\<rparr>, w)))
        else if action = ''left_click'' then take_action_screenshot self (emit Click w)
        else if action = ''right_click'' then take_action_screenshot self (emit RightClick w)
        else if action = ''middle_click'' then take_action_screenshot self (emit MiddleClick w)
        else if action = ''double_click'' then take_action_screenshot self (emit DoubleClick w)
        else invalid_action action w
      else invalid_action action w)"

definition key_block ::
  "ComputerTool \<Rightarrow> world \<Rightarrow> string \<Rightarrow> pyval \<Rightarrow> pyval \<Rightarrow> (error + ToolResult) \<times> world" where
  "key_block self w action text coordinate =
     (if action \<in> {''key'', ''type''} then
        if text = PNone then
          (Inl (ToolError [Lit ''text is required for '', Val (PStr action)]), w)
        else if coordinate \<noteq> PNone then
          (Inl (ToolError [Lit ''coordinate is not accepted for '', Val (PStr action)]), w)
        else if \<not> isinstance_str text then
          (Inl (ToolError [Val text, Lit '' must be a string'']), w)
        else if action = ''key'' then
          (if CHR ''+'' \<in> set (str_value text) then
             take_action_screenshot self
               (emit (Hotkey (map (\<lambda>key. str_lower (str_strip key))
                                  (str_split CHR ''+'' (str_value text)))) w)
           else take_action_screenshot self (emit (Press (str_lower (str_value text))) w))
        else if action = ''type'' then
          take_action_screenshot self (emit (Write (str_value text)) w)
        else click_block self w action text coordinate
      else click_block self w action text coordinate)"

definition call ::
  "ComputerTool \<Rightarrow> world \<Rightarrow> string \<Rightarrow> pyval \<Rightarrow> pyval \<Rightarrow> (error + ToolResult) \<times> world" where
  "call self w action text coordinate =
     (if action \<in> {''mouse_move'', ''left_click_drag''} then
        if coordinate = PNone then
          (Inl (ToolError [Lit ''coordinate is required for '', Val (PStr action)]), w)
        else if text \<noteq> PNone then
          (Inl (ToolError [Lit ''text is not accepted for '', Val (PStr action)]), w)
        else if \<not> isinstance_list coordinate \<or> length (items coordinate) \<noteq> 2 then
          (Inl (ToolError [Val coordinate, Lit '' must be a tuple of length 2'']), w)
        else if \<not> list_all (\<lambda>i. isinstance_int i \<and> int_value i \<ge> 0) (items coordinate) then
          (Inl (ToolError [Val coordinate, Lit '' must be a tuple of non-negative ints'']), w)
        else
          (case scale_coordinates self API (int_value (items coordinate ! 0))
                                           (int_value (items coordinate ! 1)) of
             Inl e \<Rightarrow> (Inl e, w)
           | Inr (x, y) \<Rightarrow>
               if action = ''mouse_move'' then take_action_screenshot self (emit (MoveTo x y) w)
               else if action = ''left_click_drag'' then
                 take_action_screenshot self (emit (DragTo x y) w)
               else key_block self w action text coordinate)
      else key_block self w action text coordinate)"

subsection \<open>The capability descriptor\<close>




subsection \<open>Notions of the specification and examples\<close>

text \<open>
  "A pair of exactly two elements", in the words of the specification: a list or a
  tuple of length two.
\<close>

fun is_pair :: "pyval \<Rightarrow> bool" where
  "is_pair (PList xs) = (length xs = 2)"
| "is_pair (PTuple xs) = (length xs = 2)"
| "is_pair v = False"

text \<open>
  The events that inject input (pointer, buttons, keys), as opposed to the waiting and
  the steps of a screenshot.
\<close>

fun is_input_event :: "event \<Rightarrow> bool" where
  "is_input_event (Sleep d) = False"
| "is_input_event Grab = False"
| "is_input_event (Resize x y) = False"
| "is_input_event Save = False"
| "is_input_event e = True"

text \<open>A tool for a 1920 by 1080 screen and a world to run it in, for the examples.\<close>

definition demo_tool :: ComputerTool where
  "demo_tool = \<lparr>width = 1920, height = 1080, display_num = None, scaling_enabled = True\<rparr>"

definition demo_world :: world where
  "demo_world =
     \<lparr>pointer = (100, 540), events = [], file_exists = True, file_base64 = ''iVBORw0KGgo=''\<rparr>"



section \<open>Properties\<close>

subsection \<open>Auxiliary facts\<close>


lemma scaling_factors_nonzero:
  assumes "width self \<noteq> 0" and "height self \<noteq> 0"
  shows "scaling_factors self =
           Inr (1200 / of_int (width self),
                1200 / (of_int (width self) / of_int (height self)) / of_int (height self))"
  using assms by (simp add: scaling_factors_def and_then_def truediv_def IMAGE_MAX_WIDTH_def)

lemma scaling_factors_zero:
  assumes "width self = 0 \<or> height self = 0"
  shows "scaling_factors self = Inl ZeroDivisionError"
  using assms by (auto simp: scaling_factors_def and_then_def truediv_def IMAGE_MAX_WIDTH_def)





lemma not_pair_shape: "\<not> is_pair c \<Longrightarrow> \<not> isinstance_list c \<or> length (items c) \<noteq> 2"
  by (cases c) simp_all

lemma save_and_encode_error:
  "fst (save_and_encode w) = Inl e \<Longrightarrow> e = ToolError [Lit ''Failed to take screenshot'']"
  by (auto simp: save_and_encode_def Let_def split: if_splits)

lemma scale_coordinates_error:
  "scale_coordinates self source x y = Inl e \<Longrightarrow>
     e = ZeroDivisionError \<or> e = ToolError (out_of_bounds x y)"
  by (cases "width self = 0 \<or> height self = 0")
     (auto simp: scale_coordinates_def scaling_factors_zero scaling_factors_nonzero and_then_def
        truediv_def split: if_splits)

lemma scale_to_api_error:
  "scale_coordinates self COMPUTER x y = Inl e \<Longrightarrow> e = ZeroDivisionError"
  by (cases "width self = 0 \<or> height self = 0")
     (auto simp: scale_coordinates_def scaling_factors_zero scaling_factors_nonzero and_then_def
        split: if_splits)

lemma screenshot_error:
  "fst (screenshot self w) = Inl e \<Longrightarrow>
     e = ZeroDivisionError \<or> e = ToolError [Lit ''Failed to take screenshot'']"
  by (auto simp: screenshot_def Let_def split: if_splits sum.splits
        dest: save_and_encode_error scale_to_api_error)

lemma take_action_screenshot_error:
  "fst (take_action_screenshot self w) = Inl e \<Longrightarrow>
     e = ZeroDivisionError \<or> e = ToolError [Lit ''Failed to take screenshot'']"
  using screenshot_error [of self "emit (Sleep screenshot_delay) w" e]
  by (auto simp: take_action_screenshot_def split: prod.splits sum.splits)

lemma str_split_nonempty: "str_split sep s \<noteq> []"
  by (subst str_split.simps) simp

lemma str_join_Cons: "ps \<noteq> [] \<Longrightarrow> str_join sep (p # ps) = p @ sep # str_join sep ps"
  by (cases ps) simp_all

lemma str_join_split: "str_join sep (str_split sep s) = s"
proof (induction sep s rule: str_split.induct)
  case (1 sep s)
  show ?case
  proof (cases "sep \<in> set s")
    case True
    let ?d = "dropWhile (\<lambda>c. c \<noteq> sep) s"
    from True have "?d \<noteq> []" by (auto simp: dropWhile_eq_Nil_conv)
    moreover from this have "hd ?d = sep" using hd_dropWhile [of "\<lambda>c. c \<noteq> sep" s] by simp
    ultimately have d: "?d = sep # tl ?d" by (cases ?d) simp_all
    have "str_join sep (str_split sep s)
            = takeWhile (\<lambda>c. c \<noteq> sep) s @ sep # str_join sep (str_split sep (tl ?d))"
      using True by (subst str_split.simps) (simp add: str_join_Cons str_split_nonempty)
    also have "\<dots> = takeWhile (\<lambda>c. c \<noteq> sep) s @ sep # tl ?d"
      using "1.IH" [OF True] by simp
    also have "\<dots> = takeWhile (\<lambda>c. c \<noteq> sep) s @ ?d" using d by simp
    finally show ?thesis by simp
  next
    case False
    then show ?thesis by (subst str_split.simps) simp
  qed
qed

lemma str_split_pieces: "p \<in> set (str_split sep s) \<Longrightarrow> sep \<notin> set p"
proof (induction sep s rule: str_split.induct)
  case (1 sep s)
  show ?case
  proof (cases "sep \<in> set s")
    case True
    from "1.prems" True
    have "p = takeWhile (\<lambda>c. c \<noteq> sep) s
          \<or> p \<in> set (str_split sep (tl (dropWhile (\<lambda>c. c \<noteq> sep) s)))"
      by (subst (asm) str_split.simps) simp
    then show ?thesis
    proof
      assume "p = takeWhile (\<lambda>c. c \<noteq> sep) s"
      then show ?thesis by (auto dest: set_takeWhileD)
    next
      assume "p \<in> set (str_split sep (tl (dropWhile (\<lambda>c. c \<noteq> sep) s)))"
      with "1.IH" [OF True] show ?thesis .
    qed
  next
    case False
    with "1.prems" show ?thesis by (subst (asm) str_split.simps) simp
  qed
qed

lemma str_split_length: "sep \<in> set s \<Longrightarrow> 2 \<le> length (str_split sep s)"
proof -
  assume a: "sep \<in> set s"
  let ?rest = "str_split sep (tl (dropWhile (\<lambda>c. c \<noteq> sep) s))"
  have "1 \<le> length ?rest"
    using str_split_nonempty [of sep "tl (dropWhile (\<lambda>c. c \<noteq> sep) s)"]
    by (cases ?rest) simp_all
  with a show ?thesis by (subst str_split.simps) simp
qed

lemma save_and_encode_events: "events (snd (save_and_encode w)) = events w @ [Save]"
  by (simp add: save_and_encode_def Let_def emit_def)

lemma screenshot_input_events:
  "filter is_input_event (events (snd (screenshot self w))) = filter is_input_event (events w)"
  by (auto simp: screenshot_def Let_def save_and_encode_events emit_def split: sum.splits)

lemma take_action_screenshot_input_events:
  "filter is_input_event (events (snd (take_action_screenshot self w)))
     = filter is_input_event (events w)"
proof -
  have "snd (take_action_screenshot self w) = snd (screenshot self (emit (Sleep screenshot_delay) w))"
    by (simp add: take_action_screenshot_def split: prod.splits sum.splits)
  then show ?thesis
    by (simp add: screenshot_input_events) (simp add: emit_def)
qed

lemma keys_ctrl_c:
  "map (\<lambda>p. str_lower (str_strip p)) (str_split CHR ''+'' '' Ctrl + C'') = [''ctrl'', ''c'']"
  by code_simp

lemma lower_return: "str_lower ''Return'' = ''return''"
  by code_simp




subsection \<open>Scaling disabled\<close>

text \<open>
  Claim C9. With scaling disabled \<open>scale_coordinates\<close> returns its input unchanged for
  either source and validates nothing: an API coordinate beyond the screen resolution
  is returned as it is. An out-of-bounds error can only come from the API source with
  scaling enabled.
\<close>

theorem scale_coordinates_disabled:
  "(\<not> scaling_enabled self \<longrightarrow> scale_coordinates self source x y = Inr (x, y))
   \<and> (scale_coordinates self source x y = Inl (ToolError m)
        \<longrightarrow> scaling_enabled self \<and> source = API \<and> (x > width self \<or> y > height self))"
proof -
  have off: "scale_coordinates self source x y = Inr (x, y)" if "\<not> scaling_enabled self"
    using that by (simp add: scale_coordinates_def)
  have on: "scaling_enabled self \<and> source = API \<and> (x > width self \<or> y > height self)"
    if err: "scale_coordinates self source x y = Inl (ToolError m)"
  proof (cases "width self = 0 \<or> height self = 0")
    case True
    with err show ?thesis
      by (auto simp: scale_coordinates_def scaling_factors_zero and_then_def split: if_splits)
  next
    case False
    with err show ?thesis
      by (auto simp: scale_coordinates_def scaling_factors_nonzero and_then_def truediv_def
               split: if_splits)
  qed
  from off on show ?thesis by blast
qed

theorem scale_coordinates_disabled_witness:
  "scale_coordinates \<lparr>width = 1920, height = 1080, display_num = None, scaling_enabled = False\<rparr>
     API 5000 5000 = Inr (5000, 5000)
   \<and> scale_coordinates demo_tool API 5000 5000 = Inl (ToolError (out_of_bounds 5000 5000))
   \<and> scaling_enabled demo_tool \<and> 5000 > width demo_tool"
proof -
  have e: "scale_coordinates demo_tool API 5000 5000 = Inl (ToolError (out_of_bounds 5000 5000))"
    by (simp add: scale_coordinates_def scaling_factors_nonzero and_then_def demo_tool_def)
  from scale_coordinates_disabled
         [of "\<lparr>width = 1920, height = 1080, display_num = None, scaling_enabled = False\<rparr>"
             API 5000 5000]
       scale_coordinates_disabled [of demo_tool API 5000 5000 "out_of_bounds 5000 5000"] e
  show ?thesis by (simp add: demo_tool_def)
qed

subsection \<open>From API space to computer space\<close>



subsection \<open>Equal factors\<close>



subsection \<open>Round trip\<close>



subsection \<open>Unknown actions\<close>

text \<open>
  Claim C6. An action string outside the ten known ones makes the call fail with the
  invalid-action error, whatever the text and coordinate fields hold; nothing is done
  to the devices.
\<close>

theorem unknown_action:
  assumes "action \<notin> {''key'', ''type'', ''mouse_move'', ''left_click'', ''left_click_drag'',
                      ''right_click'', ''middle_click'', ''double_click'', ''screenshot'',
                      ''cursor_position''}"
  shows "call self w action text coordinate
           = (Inl (ToolError [Lit ''Invalid action: '', Val (PStr action)]), w)"
  using assms by (simp add: call_def key_block_def click_block_def invalid_action_def)

theorem unknown_action_witness:
  "call demo_tool demo_world ''scroll'' (PStr ''down'') (PList [PInt 1, PInt 2])
     = (Inl (ToolError [Lit ''Invalid action: '', Val (PStr ''scroll'')]), demo_world)"
  using unknown_action
    [of "''scroll''" demo_tool demo_world "PStr ''down''" "PList [PInt 1, PInt 2]"]
  by simp

subsection \<open>Validation of mouse\_move and left\_click\_drag\<close>

text \<open>
  Claim C3. For the actions mouse\_move and left\_click\_drag the call fails with a
  \<open>ToolError\<close>, before any device is touched, whenever the coordinate is absent, is not
  a pair of exactly two elements, contains a negative integer, or contains a value that
  is not an integer, and also whenever a text is supplied. An integer is an instance of
  \<open>int\<close>, the test the source makes (Python's \<open>bool\<close> is a subclass of \<open>int\<close>).
\<close>

theorem move_drag_rejects:
  assumes "action = ''mouse_move'' \<or> action = ''left_click_drag''"
    and "coordinate = PNone
         \<or> \<not> is_pair coordinate
         \<or> (\<exists>v \<in> set (items coordinate). isinstance_int v \<and> int_value v < 0)
         \<or> (\<exists>v \<in> set (items coordinate). \<not> isinstance_int v)
         \<or> text \<noteq> PNone"
  shows "\<exists>m. call self w action text coordinate = (Inl (ToolError m), w)"
proof -
  let ?ok = "\<lambda>i. isinstance_int i \<and> int_value i \<ge> 0"
  have neg: "\<not> list_all ?ok (items coordinate)"
    if "\<exists>v \<in> set (items coordinate). isinstance_int v \<and> int_value v < 0"
    using that by (fastforce simp: list_all_iff)
  have non: "\<not> list_all ?ok (items coordinate)"
    if "\<exists>v \<in> set (items coordinate). \<not> isinstance_int v"
    using that by (fastforce simp: list_all_iff)
  from assms(2) neg non not_pair_shape [of coordinate] have
    "coordinate = PNone \<or> text \<noteq> PNone
     \<or> \<not> isinstance_list coordinate \<or> length (items coordinate) \<noteq> 2
     \<or> \<not> list_all ?ok (items coordinate)"
    by blast
  with assms(1) show ?thesis
    by (auto simp: call_def)
qed

theorem move_drag_rejects_witness:
  "(\<exists>m. call demo_tool demo_world ''mouse_move'' PNone (PList [PInt (- 1), PInt 5])
          = (Inl (ToolError m), demo_world))
   \<and> (\<exists>m. call demo_tool demo_world ''left_click_drag'' PNone (PList [PInt 3, PFloat (1 / 2)])
            = (Inl (ToolError m), demo_world))
   \<and> (\<exists>m. call demo_tool demo_world ''mouse_move'' (PStr ''a'') (PList [PInt 3, PInt 5])
            = (Inl (ToolError m), demo_world))
   \<and> (\<exists>m. call demo_tool demo_world ''mouse_move'' PNone (PList [PInt 3])
            = (Inl (ToolError m), demo_world))
   \<and> (\<exists>m. call demo_tool demo_world ''left_click_drag'' PNone PNone
            = (Inl (ToolError m), demo_world))"
  using
    move_drag_rejects
      [of "''mouse_move''" "PList [PInt (- 1), PInt 5]" PNone demo_tool demo_world]
    move_drag_rejects
      [of "''left_click_drag''" "PList [PInt 3, PFloat (1 / 2)]" PNone demo_tool demo_world]
    move_drag_rejects
      [of "''mouse_move''" "PList [PInt 3, PInt 5]" "PStr ''a''" demo_tool demo_world]
    move_drag_rejects [of "''mouse_move''" "PList [PInt 3]" PNone demo_tool demo_world]
    move_drag_rejects [of "''left_click_drag''" PNone PNone demo_tool demo_world]
  by simp

subsection \<open>Tuples are not lists\<close>

text \<open>
  Claim C8. For mouse\_move and left\_click\_drag a coordinate given as a tuple of two
  integers is rejected with the message "... must be a tuple of length 2", because the
  shape test asks for a list: with no text, a coordinate draws that message exactly
  when it is present and is not a list of length two.
\<close>

theorem tuple_coordinate_rejected:
  assumes "action = ''mouse_move'' \<or> action = ''left_click_drag''"
  shows "call self w action PNone (PTuple [PInt a, PInt b])
           = (Inl (ToolError [Val (PTuple [PInt a, PInt b]), Lit '' must be a tuple of length 2'']), w)
         \<and> (fst (call self w action PNone c)
               = Inl (ToolError [Val c, Lit '' must be a tuple of length 2''])
             \<longleftrightarrow> c \<noteq> PNone \<and> \<not> (isinstance_list c \<and> length (items c) = 2))"
proof (rule conjI)
  from assms show "call self w action PNone (PTuple [PInt a, PInt b])
           = (Inl (ToolError [Val (PTuple [PInt a, PInt b]), Lit '' must be a tuple of length 2'']), w)"
    by (auto simp: call_def)
next
  let ?E = "Inl (ToolError [Val c, Lit '' must be a tuple of length 2''])"
  show "fst (call self w action PNone c) = ?E
          \<longleftrightarrow> c \<noteq> PNone \<and> \<not> (isinstance_list c \<and> length (items c) = 2)"
  proof (cases "c \<noteq> PNone \<and> \<not> (isinstance_list c \<and> length (items c) = 2)")
    case True
    with assms show ?thesis by (auto simp: call_def)
  next
    case False
    have "fst (call self w action PNone c) \<noteq> ?E"
    proof (cases "c = PNone")
      case True
      with assms show ?thesis by (auto simp: call_def)
    next
      case nn: False
      with False have shape: "isinstance_list c" "length (items c) = 2" by auto
      show ?thesis
      proof (cases "list_all (\<lambda>i. isinstance_int i \<and> int_value i \<ge> 0) (items c)")
        case False
        with assms nn shape show ?thesis by (auto simp: call_def)
      next
        case ok: True
        show ?thesis
        proof (cases "scale_coordinates self API (int_value (items c ! 0)) (int_value (items c ! 1))")
          case (Inl e)
          from scale_coordinates_error [OF Inl] assms nn shape ok Inl show ?thesis
            by (auto simp: call_def out_of_bounds_def)
        next
          case (Inr p)
          obtain x y where p: "p = (x, y)" by (cases p)
          have t: "fst (take_action_screenshot self w') \<noteq> ?E" for w'
            using take_action_screenshot_error [of self w'] by auto
          from assms nn shape ok Inr p t show ?thesis
            by (auto simp: call_def)
        qed
      qed
    qed
    with False show ?thesis by simp
  qed
qed

theorem tuple_coordinate_rejected_witness:
  "call demo_tool demo_world ''mouse_move'' PNone (PTuple [PInt 10, PInt 20])
     = (Inl (ToolError [Val (PTuple [PInt 10, PInt 20]), Lit '' must be a tuple of length 2'']),
        demo_world)
   \<and> fst (call demo_tool demo_world ''mouse_move'' PNone (PList [PInt 10, PInt 20]))
       \<noteq> Inl (ToolError [Val (PList [PInt 10, PInt 20]), Lit '' must be a tuple of length 2''])"
  using tuple_coordinate_rejected
    [of "''mouse_move''" demo_tool demo_world 10 20 "PList [PInt 10, PInt 20]"]
  by simp

subsection \<open>The key action\<close>

text \<open>
  Claim C4. For the action key with a text that contains \<open>+\<close>, the text is split at every
  \<open>+\<close> (the pieces joined by \<open>+\<close> give the text back, no piece contains \<open>+\<close>, and there are
  at least two), each piece is stripped and lower-cased, and all keys go into one
  \<open>hotkey\<close> call; for a text without \<open>+\<close> the lower-cased text is pressed as a single
  key. That call is the only input the action injects; the post-action screenshot
  follows it.
\<close>

theorem key_action:
  "call self w ''key'' (PStr t) PNone =
     take_action_screenshot self
       (emit (if CHR ''+'' \<in> set t
              then Hotkey (map (\<lambda>p. str_lower (str_strip p)) (str_split CHR ''+'' t))
              else Press (str_lower t)) w)
   \<and> filter is_input_event (events (snd (call self w ''key'' (PStr t) PNone)))
       = filter is_input_event (events w)
         @ [if CHR ''+'' \<in> set t
            then Hotkey (map (\<lambda>p. str_lower (str_strip p)) (str_split CHR ''+'' t))
            else Press (str_lower t)]
   \<and> str_join CHR ''+'' (str_split CHR ''+'' t) = t
   \<and> (\<forall>p \<in> set (str_split CHR ''+'' t). CHR ''+'' \<notin> set p)
   \<and> (CHR ''+'' \<in> set t \<longrightarrow> 2 \<le> length (str_split CHR ''+'' t))"
proof -
  have c: "call self w ''key'' (PStr t) PNone =
     take_action_screenshot self
       (emit (if CHR ''+'' \<in> set t
              then Hotkey (map (\<lambda>p. str_lower (str_strip p)) (str_split CHR ''+'' t))
              else Press (str_lower t)) w)"
    by (simp add: call_def key_block_def)
  have e: "filter is_input_event (events (snd (call self w ''key'' (PStr t) PNone)))
       = filter is_input_event (events w)
         @ [if CHR ''+'' \<in> set t
            then Hotkey (map (\<lambda>p. str_lower (str_strip p)) (str_split CHR ''+'' t))
            else Press (str_lower t)]"
    unfolding c take_action_screenshot_input_events by (simp add: emit_def)
  from c e show ?thesis
    using str_join_split str_split_pieces str_split_length by blast
qed

theorem key_action_witness:
  "filter is_input_event (events (snd (call demo_tool demo_world ''key'' (PStr ''ctrl+c'') PNone)))
     = [Hotkey [''ctrl'', ''c'']]
   \<and> filter is_input_event
        (events (snd (call demo_tool demo_world ''key'' (PStr '' Ctrl + C'') PNone)))
     = [Hotkey [''ctrl'', ''c'']]
   \<and> filter is_input_event (events (snd (call demo_tool demo_world ''key'' (PStr ''Return'') PNone)))
     = [Press ''return'']
   \<and> CHR ''+'' \<in> set ''ctrl+c'' \<and> 2 \<le> length (str_split CHR ''+'' ''ctrl+c'')
   \<and> str_join CHR ''+'' (str_split CHR ''+'' ''ctrl+c'') = ''ctrl+c''"
proof -
  have k: "map (\<lambda>p. str_lower (str_strip p)) (str_split CHR ''+'' ''ctrl+c'') = [''ctrl'', ''c'']"
    by code_simp
  have e: "events demo_world = []" by (simp add: demo_world_def)
  note a = key_action [of demo_tool demo_world "''ctrl+c''"]
  note b = key_action [of demo_tool demo_world "'' Ctrl + C''"]
  note c = key_action [of demo_tool demo_world "''Return''"]
  from a [THEN conjunct2, THEN conjunct1] have "filter is_input_event
      (events (snd (call demo_tool demo_world ''key'' (PStr ''ctrl+c'') PNone)))
      = [Hotkey [''ctrl'', ''c'']]"
    by (simp add: k e)
  moreover from b [THEN conjunct2, THEN conjunct1] have "filter is_input_event
      (events (snd (call demo_tool demo_world ''key'' (PStr '' Ctrl + C'') PNone)))
      = [Hotkey [''ctrl'', ''c'']]"
    by (simp add: keys_ctrl_c e)
  moreover from c [THEN conjunct2, THEN conjunct1] have "filter is_input_event
      (events (snd (call demo_tool demo_world ''key'' (PStr ''Return'') PNone)))
      = [Press ''return'']"
    by (simp add: lower_return e)
  moreover have m: "CHR ''+'' \<in> set ''ctrl+c''" by simp
  moreover from a m have "2 \<le> length (str_split CHR ''+'' ''ctrl+c'')"
    by blast
  moreover from a have "str_join CHR ''+'' (str_split CHR ''+'' ''ctrl+c'') = ''ctrl+c''"
    by blast
  ultimately show ?thesis by blast
qed

subsection \<open>The capability descriptor\<close>



subsection \<open>The cursor position\<close>



end
